theory Spec2Isabelle
  imports
    Complex_Main
    "HOL-Library.AList"
    "HOL-Library.Sublist"
    "HOL-Library.Multiset"
    "HOL-Library.Char_ord"
    "HOL-Library.List_Lexorder"
begin

section \<open>Data model\<close>

text \<open>
  The book-review service keeps two process-wide collections: the catalog \<open>books\<close>
  (booksdb.js) and the user directory \<open>users\<close> (auth_users.js). Handlers mutate them in
  place; here every handler takes the store and returns the new one.

  JavaScript strings are modelled as \<open>string\<close>, one \<open>char\<close> per UTF-16 code unit below 256
  (this covers every author and title of the seeded catalog). A field that JavaScript
  reads as \<open>undefined\<close> is \<open>None\<close>. Request fields are text, as the service's interface
  types them.

  The own properties of a JavaScript object used as a dictionary are an association
  list in the order in which JavaScript enumerates them (names that are array indices
  first, in ascending order, then the other names in the order of their creation),
  looked up with \<open>map_of\<close>. The catalog,
  the books and the review objects are plain objects, so a read that finds no own
  property goes on to \<open>Object.prototype\<close>; the section on the objects of the runtime
  models what such a read finds and where a write then lands.

  Every book of the catalog has its own \<open>reviews\<close> object from the start, and no code
  removes it or adds a book.
\<close>

record user =
  username :: string
  password :: string

type_synonym reviews_obj = "(string \<times> string) list"

record book =
  author :: string
  title :: string
  reviews :: reviews_obj

text \<open>
  The part of the runtime that the handlers can reach through the catalog.
  \<open>attached\<close> holds the \<open>reviews\<close> objects that \<open>putReview\<close> has created on objects of
  the runtime, under the name by which the catalog inherits the object: the name of a
  function of \<open>Object.prototype\<close> for that function, and \<open>__proto__\<close> for
  \<open>Object.prototype\<close> itself. \<open>string_proto\<close> lists the property names of
  \<open>String.prototype\<close>, which vary with the version of the runtime and never change
  while it runs.
\<close>

record runtime =
  string_proto :: "string list"
  attached :: "(string \<times> reviews_obj) list"

record store =
  books :: "(string \<times> book) list"
  users :: "user list"
  runtime :: runtime

text \<open>
  The signed token of the jsonwebtoken library: the payload \<open>{data, iat, exp}\<close> and the key
  it was signed with. The session stores \<open>{accessToken, username}\<close>.
\<close>

record token =
  tok_data :: string
  tok_iat :: nat
  tok_exp :: nat
  tok_key :: string

record authorization =
  accessToken :: token
  sess_username :: string

datatype verb = GET | POST | PUT | DELETE

text \<open>
  A request: the HTTP verb, the path as the list of its segments (compared as written),
  the parsed JSON body and the parsed query string (field name to text), the session
  context \<open>req.session.authorization\<close>,
  and \<open>req.user\<close>, which the middleware sets. \<open>clock\<close> is the time in seconds at which
  the request is handled and \<open>draw\<close> is the value that \<open>Math.random()\<close> returns while it
  is handled.
\<close>

record request =
  verb :: verb
  path :: "string list"
  body :: "string \<rightharpoonup> string"
  query :: "string \<rightharpoonup> string"
  session :: "authorization option"
  req_user :: "token option"
  clock :: nat
  draw :: rat

text \<open>
  One entry of a search result, \<open>{isbn, title, author, reviews}\<close>: \<open>found\<close> for a book of
  the catalog, and \<open>SharedEntry title author reviews\<close> for the entry that the loop builds
  from the object it finds under the inherited name \<open>reviews\<close> (its title may be
  \<open>undefined\<close>, its reviews a text or an object).
\<close>

record found =
  f_isbn :: string
  f_title :: string
  f_author :: string
  f_reviews :: reviews_obj

datatype entry = BookEntry found | SharedEntry "string option" string "string + reviews_obj"

text \<open>
  A response is \<open>res.status(n).json({message, ...})\<close>. The payload holds the other fields
  of the JSON body. The constant \<open>method\<close> field and the fields computed from the wall
  clock (\<open>operationDuration\<close>, \<open>timestamp\<close>) are left out. \<open>ReviewsOf\<close> and \<open>ReviewsText\<close>
  are \<open>{bookTitle, reviews, reviewCount}\<close> with an object and with a text as \<open>reviews\<close>;
  \<open>RuntimeFailure\<close> is an error body whose message is the runtime's text for a TypeError.
\<close>

datatype payload =
    NoPayload
  | ReviewsOf "string option" reviews_obj nat
  | ReviewsText "string option" string nat
  | ReviewSaved string string
  | ReviewDeleted string
  | AllBooks nat "(string \<times> book) list"
  | AuthorMatches string nat "entry list"
  | AuthorNone string nat
  | Failure string
  | RuntimeFailure

record response =
  status :: nat
  message :: string
  payload :: payload

definition json :: "nat \<Rightarrow> string \<Rightarrow> payload \<Rightarrow> response" where
  "json n m p = \<lparr>status = n, message = m, payload = p\<rparr>"

text \<open>\<open>!x\<close> on a text field: true for \<open>undefined\<close> and for the empty string.\<close>

definition falsy :: "string option \<Rightarrow> bool" where
  "falsy x = (case x of None \<Rightarrow> True | Some s \<Rightarrow> s = [])"

section \<open>The seeded catalog (booksdb.js)\<close>

definition mk_book :: "string \<Rightarrow> string \<Rightarrow> book" where
  "mk_book a t = \<lparr>author = a, title = t, reviews = []\<rparr>"

definition booksdb :: "(string \<times> book) list" where
  "booksdb =
    [(''1'', mk_book ''Chinua Achebe'' ''Things Fall Apart''),
     (''2'', mk_book ''Hans Christian Andersen'' ''Fairy tales''),
     (''3'', mk_book ''Dante Alighieri'' ''The Divine Comedy''),
     (''4'', mk_book ''Unknown'' ''The Epic Of Gilgamesh''),
     (''5'', mk_book ''Unknown'' ''The Book Of Job''),
     (''6'', mk_book ''Unknown'' ''One Thousand and One Nights''),
     (''7'', mk_book ''Unknown'' (''Nj'' @ [char_of (225::nat)] @ ''l's Saga'')),
     (''8'', mk_book ''Jane Austen'' ''Pride and Prejudice''),
     (''9'', mk_book (''Honor'' @ [char_of (233::nat)] @ '' de Balzac'')
                     (''Le P'' @ [char_of (232::nat)] @ ''re Goriot'')),
     (''10'', mk_book ''Samuel Beckett'' ''Molloy, Malone Dies, The Unnamable, the trilogy'')]"

text \<open>
  The runtime at the start of the process: nothing is attached yet. The names of
  \<open>String.prototype\<close> are those of ECMAScript 2017, the edition of the source's
  \<open>async\<close> functions.
\<close>

definition es2017_string_names :: "string list" where
  "es2017_string_names =
    [''anchor'', ''big'', ''blink'', ''bold'', ''charAt'', ''charCodeAt'', ''codePointAt'',
     ''concat'', ''constructor'', ''endsWith'', ''fixed'', ''fontcolor'', ''fontsize'',
     ''includes'', ''indexOf'', ''italics'', ''lastIndexOf'', ''link'', ''localeCompare'',
     ''match'', ''normalize'', ''padEnd'', ''padStart'', ''repeat'', ''replace'', ''search'',
     ''slice'', ''small'', ''split'', ''startsWith'', ''strike'', ''sub'', ''substr'',
     ''substring'', ''sup'', ''toLocaleLowerCase'', ''toLocaleUpperCase'', ''toLowerCase'',
     ''toString'', ''toUpperCase'', ''trim'', ''trimLeft'', ''trimRight'', ''valueOf'']"

definition init_runtime :: runtime where
  "init_runtime = \<lparr>string_proto = es2017_string_names, attached = []\<rparr>"

definition init_store :: store where
  "init_store = \<lparr>books = booksdb, users = [], runtime = init_runtime\<rparr>"

section \<open>The objects of the runtime that the catalog inherits from\<close>

text \<open>
  \<open>Object.prototype\<close> has these functions as properties (none of them enumerable), and
  the accessor \<open>__proto__\<close>, whose getter returns the prototype of the object it is read
  on and whose setter ignores a value that is not an object.
\<close>

definition proto_names :: "string list" where
  "proto_names =
    [''constructor'', ''__defineGetter__'', ''__defineSetter__'', ''hasOwnProperty'',
     ''__lookupGetter__'', ''__lookupSetter__'', ''isPrototypeOf'', ''propertyIsEnumerable'',
     ''toString'', ''valueOf'', ''toLocaleString'']"

text \<open>
  \<open>Object.prototype.reviews\<close>: absent until a \<open>putReview\<close> on the id \<open>__proto__\<close> creates
  it. From then on every object without a \<open>reviews\<close> property of its own inherits this
  one object.
\<close>

definition shared :: "store \<Rightarrow> reviews_obj option" where
  "shared st = map_of (attached (runtime st)) ''__proto__''"

text \<open>
  \<open>inherits st n\<close>: on a plain object without an own property \<open>n\<close>, the read \<open>obj[n]\<close>
  finds a property of \<open>Object.prototype\<close>. What it finds is a function or an object, so
  it is truthy.
\<close>

definition inherits :: "store \<Rightarrow> string \<Rightarrow> bool" where
  "inherits st n =
     (n \<in> set proto_names \<or> n = ''__proto__'' \<or> (n = ''reviews'' \<and> shared st \<noteq> None))"

text \<open>
  What \<open>books[isbn]\<close> evaluates to when it is not \<open>undefined\<close>: a book of the catalog, the
  object of the runtime inherited under that name (a function of \<open>Object.prototype\<close>, or
  \<open>Object.prototype\<close> itself under \<open>__proto__\<close>), or the object
  \<open>Object.prototype.reviews\<close>.
\<close>

datatype target = OwnBook string book | Builtin string | Shared reviews_obj

definition books_at :: "store \<Rightarrow> string \<Rightarrow> target option" where
  "books_at st isbn =
     (case map_of (books st) isbn of
        Some b \<Rightarrow> Some (OwnBook isbn b)
      | None \<Rightarrow>
          if isbn \<in> set proto_names \<or> isbn = ''__proto__'' then Some (Builtin isbn)
          else if isbn = ''reviews'' then map_option Shared (shared st)
          else None)"

text \<open>
  What \<open>books[isbn].reviews\<close> evaluates to: \<open>undefined\<close>, a review object together with
  the place where it is stored, or a text. A book has its own object. An object of the
  runtime has the one attached to it, else the inherited \<open>Object.prototype.reviews\<close>.
  On the object \<open>Object.prototype.reviews\<close> itself the property is the text that a user
  named \<open>reviews\<close> stored there, else the object again, by inheritance.
\<close>

datatype place = InBook string | Attached string

datatype rvalue = NoReviews | ReviewsAt place reviews_obj | TextValue string

definition reviews_at :: "store \<Rightarrow> target \<Rightarrow> rvalue" where
  "reviews_at st x =
     (case x of
        OwnBook k b \<Rightarrow> ReviewsAt (InBook k) (reviews b)
      | Builtin n \<Rightarrow>
          (case map_of (attached (runtime st)) n of
             Some r \<Rightarrow> ReviewsAt (Attached n) r
           | None \<Rightarrow>
               (case shared st of
                  Some p \<Rightarrow> ReviewsAt (Attached ''__proto__'') p
                | None \<Rightarrow> NoReviews))
      | Shared p \<Rightarrow>
          (case map_of p ''reviews'' of
             Some t \<Rightarrow> TextValue t
           | None \<Rightarrow> ReviewsAt (Attached ''__proto__'') p))"

text \<open>\<open>!v\<close> for such a value: an object is truthy, a text is falsy when it is empty.\<close>

definition rv_falsy :: "rvalue \<Rightarrow> bool" where
  "rv_falsy v = (case v of NoReviews \<Rightarrow> True | ReviewsAt pl r \<Rightarrow> False | TextValue t \<Rightarrow> t = [])"

text \<open>\<open>books[isbn].title\<close>.\<close>

definition title_at :: "target \<Rightarrow> string option" where
  "title_at x =
     (case x of
        OwnBook k b \<Rightarrow> Some (title b)
      | Builtin n \<Rightarrow> None
      | Shared p \<Rightarrow> map_of p ''title'')"

text \<open>
  A name is an array index when it is the decimal numeral, without leading zero, of a
  number below \<open>2\<^sup>3\<^sup>2 - 1\<close>.
\<close>

definition is_digit :: "char \<Rightarrow> bool" where
  "is_digit c = (48 \<le> (of_char c :: nat) \<and> (of_char c :: nat) \<le> 57)"

definition digits_value :: "string \<Rightarrow> nat" where
  "digits_value s = foldl (\<lambda>n c. 10 * n + ((of_char c :: nat) - 48)) 0 s"

definition canonical :: "string \<Rightarrow> bool" where
  "canonical s =
     (s \<noteq> [] \<and> list_all is_digit s \<and> (if hd s = CHR ''0'' then s = ''0'' else True))"

definition array_index :: "string \<Rightarrow> nat option" where
  "array_index s =
     (if canonical s \<and> digits_value s < 4294967295 then Some (digits_value s) else None)"

text \<open>
  A new own property \<open>k\<close> takes its place in the enumeration: an array index before the
  first name that is no array index or a greater one, any other name at the end.
\<close>

definition goes_before :: "string \<Rightarrow> string \<Rightarrow> bool" where
  "goes_before k k' =
     (case array_index k of
        Some i \<Rightarrow> (case array_index k' of Some j \<Rightarrow> i < j | None \<Rightarrow> True)
      | None \<Rightarrow> False)"

fun put_key :: "string \<Rightarrow> string \<Rightarrow> reviews_obj \<Rightarrow> reviews_obj" where
  "put_key k v [] = [(k, v)]"
| "put_key k v (p # ps) =
     (if fst p = k then (k, v) # ps
      else if goes_before k (fst p) \<and> map_of ps k = None then (k, v) # p # ps
      else p # put_key k v ps)"

text \<open>
  \<open>obj[name] = v\<close> on a review object: the name \<open>__proto__\<close> reaches the setter of
  \<open>Object.prototype\<close>, which ignores a text; every other name becomes or updates an own
  property.
\<close>

definition assign :: "string \<Rightarrow> string \<Rightarrow> reviews_obj \<Rightarrow> reviews_obj" where
  "assign name v r = (if name = ''__proto__'' then r else put_key name v r)"

text \<open>The store after the review object at a place has been changed by \<open>f\<close>.\<close>

definition modify :: "store \<Rightarrow> place \<Rightarrow> (reviews_obj \<Rightarrow> reviews_obj) \<Rightarrow> store" where
  "modify st pl f =
     (case pl of
        InBook k \<Rightarrow>
          st\<lparr>books := AList.map_entry k (\<lambda>b. b\<lparr>reviews := f (reviews b)\<rparr>) (books st)\<rparr>
      | Attached n \<Rightarrow>
          st\<lparr>runtime := (runtime st)\<lparr>attached := AList.map_entry n f (attached (runtime st))\<rparr>\<rparr>)"

text \<open>
  \<open>books[isbn].reviews = {}\<close>. The handler reaches it only when the property is falsy:
  never for a book, and for \<open>Object.prototype.reviews\<close> only if the text stored in it
  under \<open>reviews\<close> were empty, which no handler stores (\<open>putReview\<close> refuses an empty
  text); that one case, where an object would take the place of the text, is left as it
  is.
\<close>

definition init_reviews :: "store \<Rightarrow> target \<Rightarrow> store" where
  "init_reviews st x =
     (case x of
        OwnBook k b \<Rightarrow> st\<lparr>books := AList.map_entry k (\<lambda>b. b\<lparr>reviews := []\<rparr>) (books st)\<rparr>
      | Builtin n \<Rightarrow>
          st\<lparr>runtime := (runtime st)\<lparr>attached := AList.update n [] (attached (runtime st))\<rparr>\<rparr>
      | Shared p \<Rightarrow> st)"

text \<open>
  \<open>t[name]\<close> is truthy on a non-empty text \<open>t\<close>: \<open>name\<close> is an index into the text (a
  decimal numeral without leading zero below its length), \<open>length\<close>, a name of
  \<open>String.prototype\<close>, or a name inherited from \<open>Object.prototype\<close>.
\<close>

definition is_index :: "string \<Rightarrow> string \<Rightarrow> bool" where
  "is_index t name = (canonical name \<and> digits_value name < length t)"

definition text_has :: "store \<Rightarrow> string \<Rightarrow> string \<Rightarrow> bool" where
  "text_has st t name =
     (is_index t name \<or> name = ''length'' \<or> name \<in> set (string_proto (runtime st))
      \<or> inherits st name)"

section \<open>User directory (auth_users.js)\<close>

definition isValid :: "user list \<Rightarrow> string \<Rightarrow> bool" where
  "isValid us name =
     (let userswithsamename = filter (\<lambda>u. username u = name) us
      in if length userswithsamename > 0 then True else False)"

definition authenticatedUser :: "user list \<Rightarrow> string \<Rightarrow> string \<Rightarrow> bool" where
  "authenticatedUser us name pw =
     (let validusers = filter (\<lambda>u. username u = name \<and> password u = pw) us
      in if length validusers > 0 then True else False)"

section \<open>Registration (general.js)\<close>

definition register :: "request \<Rightarrow> store \<Rightarrow> response \<times> store" where
  "register req st =
     (if falsy (body req ''username'') \<or> falsy (body req ''password'')
      then (json 400 ''Username and password are required'' NoPayload, st)
      else
        let name = the (body req ''username''); pw = the (body req ''password'') in
        if isValid (users st) name
        then (json 409 ''Username already exists. Please choose a different username.''
                NoPayload, st)
        else (json 200 ''User registered successfully. You can now login.'' NoPayload,
              st\<lparr>users := users st @ [\<lparr>username = name, password = pw\<rparr>]\<rparr>))"

section \<open>Token library (jsonwebtoken)\<close>

text \<open>
  The library is not part of the repository. \<open>jwt.sign(payload, key, {expiresIn})\<close>
  stamps the payload with the time of issue and the expiry; \<open>jwt.verify(token, key)\<close>
  accepts a token signed with \<open>key\<close> whose expiry lies in the future.
\<close>

definition jwt_sign :: "string \<Rightarrow> string \<Rightarrow> nat \<Rightarrow> nat \<Rightarrow> token" where
  "jwt_sign d k now expiresIn =
     \<lparr>tok_data = d, tok_iat = now, tok_exp = now + expiresIn, tok_key = k\<rparr>"

definition jwt_verify :: "token \<Rightarrow> string \<Rightarrow> nat \<Rightarrow> bool" where
  "jwt_verify t k now = (tok_key t = k \<and> now < tok_exp t)"

section \<open>Authenticated routes (auth_users.js)\<close>

text \<open>
  What a handler throws or a promise rejects with: a TypeError of the runtime, or the
  \<open>Error\<close> with the message of a simulated failure.
\<close>

datatype error = TypeError | SimulatedError string

text \<open>\<open>regd_users.post("/login")\<close>: returns the response and the session context.\<close>

definition login :: "request \<Rightarrow> store \<Rightarrow> response \<times> authorization option" where
  "login req st =
     (if falsy (body req ''username'') \<or> falsy (body req ''password'')
      then (json 400 ''Username and password are required'' NoPayload, session req)
      else
        let name = the (body req ''username''); pw = the (body req ''password'') in
        if authenticatedUser (users st) name pw
        then (json 200 ''User successfully logged in'' NoPayload,
              Some \<lparr>accessToken = jwt_sign name ''access'' (clock req) (60 * 60),
                    sess_username = name\<rparr>)
        else (json 404 ''Invalid Login. Check username and password'' NoPayload,
              session req))"

text \<open>
  \<open>regd_users.put("/auth/review/:isbn")\<close>. Reading \<open>req.session.authorization.username\<close>
  throws a TypeError when the session carries no authorization; this happens on the
  handler's first lines, before any check. The module is not in strict mode, so the
  assignment to a property of a text is ignored.
\<close>

definition putReview :: "string \<Rightarrow> request \<Rightarrow> store \<Rightarrow> error + (response \<times> store)" where
  "putReview isbn req st =
     (case session req of
        None \<Rightarrow> Inl TypeError
      | Some a \<Rightarrow>
          let review = query req ''review''; name = sess_username a in
          if falsy review
          then Inr (json 400 ''Review content is required'' NoPayload, st)
          else
            (case books_at st isbn of
               Some x \<Rightarrow>
                 let st1 = (if rv_falsy (reviews_at st x) then init_reviews st x else st);
                     st2 = (case reviews_at st1 x of
                              ReviewsAt pl r \<Rightarrow> modify st1 pl (assign name (the review))
                            | NoReviews \<Rightarrow> st1
                            | TextValue t \<Rightarrow> st1)
                 in Inr (json 200
                           (''Review for book with ISBN '' @ isbn @
                            '' has been added/modified successfully'')
                           (ReviewSaved (the review) name),
                         st2)
             | None \<Rightarrow> Inr (json 400 ''Book not found'' NoPayload, st)))"

text \<open>
  \<open>regd_users.delete("/auth/review/:isbn")\<close>. \<open>delete obj[name]\<close> removes an own property
  and leaves inherited ones; on a text it removes nothing.
\<close>

definition deleteReview :: "string \<Rightarrow> request \<Rightarrow> store \<Rightarrow> error + (response \<times> store)" where
  "deleteReview isbn req st =
     (case session req of
        None \<Rightarrow> Inl TypeError
      | Some a \<Rightarrow>
          let name = sess_username a;
              deleted = json 200
                          (''Review for book with ISBN '' @ isbn @
                           '' has been deleted successfully'')
                          (ReviewDeleted name);
              no_review = json 404 ''Review not found for this user'' NoPayload
          in
          (case books_at st isbn of
             Some x \<Rightarrow>
               (case reviews_at st x of
                  ReviewsAt pl r \<Rightarrow>
                    if (case map_of r name of Some t \<Rightarrow> t \<noteq> [] | None \<Rightarrow> inherits st name)
                    then Inr (deleted, modify st pl (AList.delete name))
                    else Inr (no_review, st)
                | TextValue t \<Rightarrow>
                    if t \<noteq> [] \<and> text_has st t name
                    then Inr (deleted, st)
                    else Inr (no_review, st)
                | NoReviews \<Rightarrow> Inr (no_review, st))
           | None \<Rightarrow> Inr (json 404 ''Book not found'' NoPayload, st)))"

section \<open>Public routes (general.js)\<close>

text \<open>
  \<open>public_users.get('/')\<close>: \<open>getBooksAsync\<close> rejects when the draw exceeds 0.95, and the
  handler's \<open>catch\<close> answers 500.
\<close>

definition getBooksAsync :: "rat \<Rightarrow> (string \<times> book) list \<Rightarrow> string + (string \<times> book) list" where
  "getBooksAsync d bks =
     (if d > 95 / 100 then Inl ''Simulated database connection error'' else Inr bks)"

definition listAll :: "request \<Rightarrow> store \<Rightarrow> response" where
  "listAll req st =
     (case getBooksAsync (draw req) (books st) of
        Inr booksData \<Rightarrow>
          json 200 ''Books retrieved successfully using Async/Await''
            (AllBooks (length booksData) booksData)
      | Inl e \<Rightarrow> json 500 ''Error retrieving books using Async/Await'' (Failure e))"

text \<open>
  \<open>public_users.get('/review/:isbn')\<close>. \<open>Object.keys\<close> of a review object are its own
  properties; of a text, its indices.
\<close>

definition getReviews :: "string \<Rightarrow> store \<Rightarrow> response" where
  "getReviews isbn st =
     (case books_at st isbn of
        Some x \<Rightarrow>
          let none = json 200 (''No reviews found for book with ISBN '' @ isbn)
                       (ReviewsOf (title_at x) [] 0);
              some = json 200
                       (''Reviews for book with ISBN '' @ isbn @ '' retrieved successfully'')
          in
          (case reviews_at st x of
             ReviewsAt pl r \<Rightarrow>
               if length r > 0 then some (ReviewsOf (title_at x) r (length r)) else none
           | TextValue t \<Rightarrow>
               if t \<noteq> [] \<and> length t > 0 then some (ReviewsText (title_at x) t (length t))
               else none
           | NoReviews \<Rightarrow> none)
      | None \<Rightarrow> json 404 (''Book with ISBN '' @ isbn @ '' not found'') NoPayload)"

text \<open>
  \<open>String.prototype.toLowerCase\<close> on code units below 256: the letters A-Z and the
  Latin-1 capitals (192-222, the multiplication sign 215 apart) move up by 32.
\<close>

definition lower_char :: "char \<Rightarrow> char" where
  "lower_char c =
     (let n = (of_char c :: nat)
      in if (65 \<le> n \<and> n \<le> 90) \<or> (192 \<le> n \<and> n \<le> 222 \<and> n \<noteq> 215)
         then char_of (n + 32) else c)"

definition toLowerCase :: "string \<Rightarrow> string" where
  "toLowerCase s = map lower_char s"

text \<open>\<open>hay.includes(needle)\<close>: \<open>needle\<close> occurs in \<open>hay\<close> as a contiguous run.\<close>

definition includes_str :: "string \<Rightarrow> string \<Rightarrow> bool" where
  "includes_str hay needle = sublist needle hay"

text \<open>
  \<open>Array.prototype.sort(compare)\<close> is stable; for a consistent comparison function its
  result is the stable sorted arrangement, which insertion from the right computes.
\<close>

fun insert_by :: "('a \<Rightarrow> 'a \<Rightarrow> int) \<Rightarrow> 'a \<Rightarrow> 'a list \<Rightarrow> 'a list" where
  "insert_by c x [] = [x]"
| "insert_by c x (y # ys) = (if c x y \<le> 0 then x # y # ys else y # insert_by c x ys)"

definition sort_by :: "('a \<Rightarrow> 'a \<Rightarrow> int) \<Rightarrow> 'a list \<Rightarrow> 'a list" where
  "sort_by c xs = foldr (insert_by c) xs []"

record search_result =
  sr_books :: "entry list"
  searchTerm :: string
  totalChecked :: nat

text \<open>
  The \<open>for (const isbn in books)\<close> loop of \<open>performAuthorSearch\<close>, over the catalog's own
  keys.
\<close>

fun search_loop :: "string \<Rightarrow> (string \<times> book) list \<Rightarrow> found list \<Rightarrow> found list" where
  "search_loop searchAuthor [] matchingBooks = matchingBooks"
| "search_loop searchAuthor ((isbn, b) # rest) matchingBooks =
     search_loop searchAuthor rest
       (if includes_str (toLowerCase (author b)) searchAuthor
        then matchingBooks @
             [\<lparr>f_isbn = isbn, f_title = title b, f_author = author b, f_reviews = reviews b\<rparr>]
        else matchingBooks)"

text \<open>
  After the own keys the loop visits the enumerable names that the catalog inherits.
  There is one only when \<open>Object.prototype.reviews\<close> exists: the name \<open>reviews\<close>, unless
  the catalog has a key of that name. The object found there has an \<open>author\<close> only if a
  user of that name stored a review in it; otherwise \<open>book.author.toLowerCase()\<close> throws
  a TypeError.
\<close>

definition shared_visit :: "string \<Rightarrow> store \<Rightarrow> error + entry list" where
  "shared_visit searchAuthor st =
     (case shared st of
        None \<Rightarrow> Inr []
      | Some p \<Rightarrow>
          if map_of (books st) ''reviews'' \<noteq> None then Inr []
          else
            (case map_of p ''author'' of
               None \<Rightarrow> Inl TypeError
             | Some t \<Rightarrow>
                 if includes_str (toLowerCase t) searchAuthor
                 then Inr [SharedEntry (map_of p ''title'') t
                             (case map_of p ''reviews'' of Some x \<Rightarrow> Inl x | None \<Rightarrow> Inr p)]
                 else Inr []))"

definition entry_title :: "entry \<Rightarrow> string option" where
  "entry_title e = (case e of BookEntry f \<Rightarrow> Some (f_title f) | SharedEntry t a r \<Rightarrow> t)"

text \<open>
  \<open>matchingBooks.sort((a, b) => a.title.localeCompare(b.title))\<close>. \<open>String.localeCompare\<close>
  belongs to the runtime and depends on its locale data, so the comparison of two titles
  is the parameter \<open>localeCompare\<close>. An entry without a title can only be the last one;
  the engine (V8 from version 7.0) passes the later element as first argument, so with
  two entries or more the first comparison of that entry throws a TypeError.
\<close>

definition sort_matches :: "(string \<Rightarrow> string \<Rightarrow> int) \<Rightarrow> entry list \<Rightarrow> error + entry list" where
  "sort_matches localeCompare ms =
     (if length ms > 1 \<and> list_ex (\<lambda>m. entry_title m = None) ms then Inl TypeError
      else Inr (sort_by (\<lambda>a b. localeCompare (the (entry_title a)) (the (entry_title b))) ms))"

text \<open>\<open>performAuthorSearch\<close>: rejects when the draw exceeds 0.97.\<close>

definition performAuthorSearch ::
  "(string \<Rightarrow> string \<Rightarrow> int) \<Rightarrow> rat \<Rightarrow> string \<Rightarrow> store \<Rightarrow> error + search_result"
where
  "performAuthorSearch localeCompare d authorName st =
     (if d > 97 / 100 then Inl (SimulatedError ''Simulated database connection timeout'')
      else
        let searchAuthor = toLowerCase authorName;
            own = search_loop searchAuthor (books st) []
        in
        (case shared_visit searchAuthor st of
           Inl e \<Rightarrow> Inl e
         | Inr inherited \<Rightarrow>
             (case sort_matches localeCompare (map BookEntry own @ inherited) of
                Inl e \<Rightarrow> Inl e
              | Inr sortedBooks \<Rightarrow>
                  Inr \<lparr>sr_books = sortedBooks, searchTerm = authorName,
                       totalChecked = length (books st)\<rparr>)))"

text \<open>\<open>public_users.get('/author/:author')\<close>.\<close>

definition dq :: string where
  "dq = [char_of (34::nat)]"

definition searchByAuthor ::
  "(string \<Rightarrow> string \<Rightarrow> int) \<Rightarrow> string \<Rightarrow> request \<Rightarrow> store \<Rightarrow> response"
where
  "searchByAuthor localeCompare authorName req st =
     (case performAuthorSearch localeCompare (draw req) authorName st of
        Inr searchResult \<Rightarrow>
          if length (sr_books searchResult) > 0
          then json 200
                 (''Books by author '' @ dq @ authorName @ dq @
                  '' retrieved successfully using Async/Await'')
                 (AuthorMatches authorName (length (sr_books searchResult))
                    (sr_books searchResult))
          else json 404
                 (''No books found by author '' @ dq @ authorName @ dq @
                  '' using Async/Await'')
                 (AuthorNone authorName 0)
      | Inl e \<Rightarrow>
          json 500
            (''Error searching for books by author '' @ dq @ authorName @ dq @
             '' using Async/Await'')
            (case e of SimulatedError m \<Rightarrow> Failure m | TypeError \<Rightarrow> RuntimeFailure))"

section \<open>Middleware and routing (index.js)\<close>

datatype gate = Reject response | Next request

text \<open>The middleware \<open>auth\<close>.\<close>

definition auth :: "request \<Rightarrow> gate" where
  "auth req =
     (case session req of
        Some a \<Rightarrow>
          let tok = accessToken a in
          if jwt_verify tok ''access'' (clock req)
          then Next (req\<lparr>req_user := Some tok\<rparr>)
          else Reject (json 403 ''User not authenticated'' NoPayload)
      | None \<Rightarrow> Reject (json 403 ''User not logged in'' NoPayload))"

text \<open>
  \<open>app.use("/customer/auth/*", auth)\<close>: the middleware runs for the paths that continue
  after \<open>/customer/auth/\<close>.
\<close>

definition gated :: "string list \<Rightarrow> bool" where
  "gated p = (take 2 p = [''customer'', ''auth''] \<and> length p > 2)"

text \<open>
  The router \<open>regd_users\<close>, mounted at \<open>/customer\<close>; it sees the path below the mount
  point. \<open>None\<close>: no route matches and the request goes on to the public router. Express
  answers an exception thrown by a handler with status 500.
\<close>

definition thrown :: "error + (response \<times> store) \<Rightarrow> request \<Rightarrow> store
    \<Rightarrow> response \<times> authorization option \<times> store" where
  "thrown r req st =
     (case r of
        Inr (resp, st') \<Rightarrow> (resp, session req, st')
      | Inl e \<Rightarrow> (json 500 ''Internal Server Error'' NoPayload, session req, st))"

definition customer_routes ::
  "request \<Rightarrow> string list \<Rightarrow> store \<Rightarrow> (response \<times> authorization option \<times> store) option"
where
  "customer_routes req p st =
     (if verb req = POST \<and> p = [''login'']
      then (let (resp, sess) = login req st in Some (resp, sess, st))
      else if verb req = PUT \<and> length p = 3 \<and> take 2 p = [''auth'', ''review'']
      then Some (thrown (putReview (p ! 2) req st) req st)
      else if verb req = DELETE \<and> length p = 3 \<and> take 2 p = [''auth'', ''review'']
      then Some (thrown (deleteReview (p ! 2) req st) req st)
      else None)"

text \<open>
  The part of \<open>app\<close> in front of the public router: the gate, then the router mounted at
  \<open>/customer\<close>.
\<close>

definition customer_app ::
  "request \<Rightarrow> store \<Rightarrow> (response \<times> authorization option \<times> store) option"
where
  "customer_app req st =
     (case (if gated (path req) then auth req else Next req) of
        Reject resp \<Rightarrow> Some (resp, session req, st)
      | Next req' \<Rightarrow>
          (case path req' of
             [] \<Rightarrow> None
           | seg # rest \<Rightarrow> if seg = ''customer'' then customer_routes req' rest st else None))"

section \<open>Notions used in the statements\<close>

text \<open>
  One transition of the store: the effect of a handler that can write to it. The login
  handler and the read-only handlers leave the store as it is.
\<close>

inductive step :: "store \<Rightarrow> store \<Rightarrow> bool" where
  step_register: "step st (snd (register req st))"
| step_putReview: "putReview isbn req st = Inr (resp, st') \<Longrightarrow> step st st'"
| step_deleteReview: "deleteReview isbn req st = Inr (resp, st') \<Longrightarrow> step st st'"

text \<open>The search-result entry of a catalog entry.\<close>

definition found_of :: "string \<times> book \<Rightarrow> found" where
  "found_of e = \<lparr>f_isbn = fst e, f_title = title (snd e), f_author = author (snd e),
                 f_reviews = reviews (snd e)\<rparr>"

text \<open>The author of \<open>b\<close> contains \<open>s\<close> as a substring, letter case apart.\<close>

definition author_contains :: "string \<Rightarrow> book \<Rightarrow> bool" where
  "author_contains s b = sublist (toLowerCase s) (toLowerCase (author b))"

text \<open>A comparison function that orders strings lexicographically by code unit.\<close>

definition lex_compare :: "string \<Rightarrow> string \<Rightarrow> int" where
  "lex_compare a b = (if a < b then - 1 else if a = b then 0 else 1)"

section \<open>A scenario: alice registers, logs in and reviews book 1\<close>

definition base_req :: request where
  "base_req = \<lparr>verb = GET, path = [], body = Map.empty, query = Map.empty,
               session = None, req_user = None, clock = 0, draw = 0\<rparr>"

definition alice_form :: "string \<rightharpoonup> string" where
  "alice_form = [''username'' \<mapsto> ''alice'', ''password'' \<mapsto> ''pw1'']"

definition register_alice :: request where
  "register_alice = base_req\<lparr>verb := POST, path := [''register''], body := alice_form\<rparr>"

definition store_alice :: store where
  "store_alice = init_store\<lparr>users := [\<lparr>username = ''alice'', password = ''pw1''\<rparr>]\<rparr>"

definition login_alice :: request where
  "login_alice = base_req\<lparr>verb := POST, path := [''customer'', ''login''], body := alice_form\<rparr>"

definition alice_session :: authorization where
  "alice_session =
     \<lparr>accessToken = \<lparr>tok_data = ''alice'', tok_iat = 0, tok_exp = 3600, tok_key = ''access''\<rparr>,
      sess_username = ''alice''\<rparr>"

definition put_alice :: request where
  "put_alice =
     base_req\<lparr>verb := PUT, path := [''customer'', ''auth'', ''review'', ''1''],
              query := [''review'' \<mapsto> ''Loved it''], session := Some alice_session\<rparr>"

definition store_reviewed :: store where
  "store_reviewed =
     store_alice\<lparr>books :=
       (''1'', \<lparr>author = ''Chinua Achebe'', title = ''Things Fall Apart'',
                reviews = [(''alice'', ''Loved it'')]\<rparr>) # tl booksdb\<rparr>"

definition delete_alice :: request where
  "delete_alice =
     base_req\<lparr>verb := DELETE, path := [''customer'', ''auth'', ''review'', ''1''],
              session := Some alice_session\<rparr>"

text \<open>
  A second user registers under the name \<open>__proto__\<close>, logs in and reviews book 1; and
  alice's review request goes to the id \<open>constructor\<close>.
\<close>

definition store_two :: store where
  "store_two =
     init_store\<lparr>users := [\<lparr>username = ''alice'', password = ''pw1''\<rparr>,
                           \<lparr>username = ''__proto__'', password = ''pw2''\<rparr>]\<rparr>"

definition proto_session :: authorization where
  "proto_session =
     \<lparr>accessToken = \<lparr>tok_data = ''__proto__'', tok_iat = 0, tok_exp = 3600,
                      tok_key = ''access''\<rparr>,
      sess_username = ''__proto__''\<rparr>"

definition put_proto :: request where
  "put_proto =
     base_req\<lparr>verb := PUT, path := [''customer'', ''auth'', ''review'', ''1''],
              query := [''review'' \<mapsto> ''Loved it''], session := Some proto_session\<rparr>"

definition store_attached :: store where
  "store_attached =
     store_alice\<lparr>runtime :=
       init_runtime\<lparr>attached := [(''constructor'', [(''alice'', ''Loved it'')])]\<rparr>\<rparr>"

section \<open>Basic facts\<close>

lemma falsy_simps:
  "falsy None" "falsy (Some s) = (s = [])"
  by (simp_all add: falsy_def)

lemmas scenario_defs =
  base_req_def alice_form_def register_alice_def store_alice_def login_alice_def
  alice_session_def put_alice_def delete_alice_def init_store_def

lemma length_booksdb: "length booksdb = 10"
  by (simp add: booksdb_def)

lemma put_alice_run:
  "putReview ''1'' put_alice store_alice =
     Inr (json 200 ''Review for book with ISBN 1 has been added/modified successfully''
            (ReviewSaved ''Loved it'' ''alice''),
          store_reviewed)"
  by (simp add: putReview_def scenario_defs store_reviewed_def falsy_def booksdb_def
      mk_book_def books_at_def reviews_at_def rv_falsy_def modify_def assign_def Let_def)

lemma isValid_iff: "isValid us name \<longleftrightarrow> name \<in> username ` set us"
  by (induction us) (auto simp add: isValid_def)

subsection \<open>What the runtime objects leave alone\<close>

lemma users_modify [simp]: "users (modify st pl f) = users st"
  by (simp add: modify_def split: place.splits)

lemma users_init_reviews [simp]: "users (init_reviews st x) = users st"
  by (simp add: init_reviews_def split: target.splits)

lemma books_at_own: "map_of (books st) isbn = Some b \<Longrightarrow> books_at st isbn = Some (OwnBook isbn b)"
  by (simp add: books_at_def)

lemma books_at_None: "books_at st isbn = None \<longleftrightarrow> map_of (books st) isbn = None \<and> \<not> inherits st isbn"
  by (auto simp add: books_at_def inherits_def split: option.splits)

subsection \<open>The user directory only grows\<close>

lemma register_users_mono: "set (users st) \<subseteq> set (users (snd (register req st)))"
  by (auto simp add: register_def Let_def)

lemma putReview_users: "putReview isbn req st = Inr (resp, st') \<Longrightarrow> users st' = users st"
  by (auto simp add: putReview_def Let_def split: option.splits if_splits rvalue.splits)

lemma deleteReview_users: "deleteReview isbn req st = Inr (resp, st') \<Longrightarrow> users st' = users st"
  by (auto simp add: deleteReview_def Let_def split: option.splits if_splits rvalue.splits)

lemma step_users_mono: "step st st' \<Longrightarrow> set (users st) \<subseteq> set (users st')"
  by (induction rule: step.induct)
     (simp_all add: register_users_mono putReview_users deleteReview_users)

lemma steps_users_mono: "step\<^sup>*\<^sup>* st st' \<Longrightarrow> set (users st) \<subseteq> set (users st')"
  by (induction rule: rtranclp_induct) (auto dest: step_users_mono)

lemma steps_isValid: "step\<^sup>*\<^sup>* st st' \<Longrightarrow> isValid (users st) u \<Longrightarrow> isValid (users st') u"
  using steps_users_mono by (fastforce simp add: isValid_iff)

lemma register_success:
  assumes "status (fst (register req st)) = 200"
  shows "\<not> falsy (body req ''username'')" and "\<not> falsy (body req ''password'')"
    and "\<not> isValid (users st) (the (body req ''username''))"
    and "users (snd (register req st)) =
           users st @ [\<lparr>username = the (body req ''username''),
                        password = the (body req ''password'')\<rparr>]"
  using assms by (auto simp add: register_def json_def Let_def split: if_splits)

subsection \<open>Writing a review of a book of the catalog\<close>

lemma putReview_own:
  assumes "session req = Some a" and "map_of (books st) isbn = Some b"
      and "query req ''review'' = Some rv" and "rv \<noteq> []"
  shows "putReview isbn req st =
           Inr (json 200
                  (''Review for book with ISBN '' @ isbn @
                   '' has been added/modified successfully'')
                  (ReviewSaved rv (sess_username a)),
                st\<lparr>books :=
                     AList.map_entry isbn
                       (\<lambda>b. b\<lparr>reviews := assign (sess_username a) rv (reviews b)\<rparr>)
                       (books st)\<rparr>)"
  using assms
  by (simp add: putReview_def falsy_def Let_def books_at_own reviews_at_def rv_falsy_def
      modify_def)

lemma map_entry_keys: "map fst (AList.map_entry k f xs) = map fst xs"
  by (induction xs) auto

lemma map_of_put_key: "map_of (put_key k v r) = (map_of r)(k \<mapsto> v)"
  by (induction r) (auto simp add: fun_eq_iff)

lemma put_key_nonempty: "put_key k v r \<noteq> []"
  by (cases r) auto

lemma map_of_assign_other:
  "u \<noteq> name \<Longrightarrow> map_of (assign name v r) u = map_of r u"
  by (simp add: assign_def map_of_put_key)

lemma map_of_assign_same:
  "name \<noteq> ''__proto__'' \<Longrightarrow> map_of (assign name v r) name = Some v"
  by (simp add: assign_def map_of_put_key)

lemma assign_nonempty: "name \<noteq> ''__proto__'' \<Longrightarrow> assign name v r \<noteq> []"
  by (simp add: assign_def put_key_nonempty)

text \<open>
  The round trip for every user name but \<open>__proto__\<close>: after a review of a book of the
  catalog, getReviews shows the text under the user's name.
\<close>

lemma putReview_then_getReviews_other_names:
  assumes sess: "session req = Some a" and b: "map_of (books st) isbn = Some b"
      and q: "query req ''review'' = Some rv" and t: "rv \<noteq> []"
      and n: "sess_username a \<noteq> ''__proto__''"
  shows "\<exists>resp st' rs.
           putReview isbn req st = Inr (resp, st') \<and> status resp = 200
         \<and> getReviews isbn st' =
             json 200 (''Reviews for book with ISBN '' @ isbn @ '' retrieved successfully'')
               (ReviewsOf (Some (title b)) rs (length rs))
         \<and> map_of rs (sess_username a) = Some rv"
proof -
  let ?rs = "assign (sess_username a) rv (reviews b)"
  let ?st' = "st\<lparr>books := AList.map_entry isbn
                 (\<lambda>b. b\<lparr>reviews := assign (sess_username a) rv (reviews b)\<rparr>) (books st)\<rparr>"
  have lookup: "map_of (books ?st') isbn = Some (b\<lparr>reviews := ?rs\<rparr>)"
    using b by (simp add: map_of_map_entry)
  have ne: "?rs \<noteq> []" using n by (rule assign_nonempty)
  have get: "getReviews isbn ?st' =
        json 200 (''Reviews for book with ISBN '' @ isbn @ '' retrieved successfully'')
          (ReviewsOf (Some (title b)) ?rs (length ?rs))"
    using ne by (simp add: getReviews_def books_at_own[OF lookup] reviews_at_def title_at_def
        Let_def)
  have "map_of ?rs (sess_username a) = Some rv"
    using n by (rule map_of_assign_same)
  then show ?thesis
    using putReview_own[OF sess b q t] get by (auto simp add: json_def)
qed

text \<open>
  What putReview does for every request of an authenticated session: the text comes from
  the query, an empty or missing text is answered 400, and so is an id that is neither a
  key of the catalog nor an inherited name.
\<close>

lemma putReview_query_and_400:
  assumes "session req = Some a"
  shows "(falsy (query req ''review'') \<longrightarrow>
            putReview isbn req st = Inr (json 400 ''Review content is required'' NoPayload, st))
       \<and> (\<not> falsy (query req ''review'') \<and> map_of (books st) isbn = None
            \<and> \<not> inherits st isbn \<longrightarrow>
            putReview isbn req st = Inr (json 400 ''Book not found'' NoPayload, st))
       \<and> putReview isbn (req\<lparr>body := bd\<rparr>) st = putReview isbn req st"
proof -
  have "books_at st isbn = None" if "map_of (books st) isbn = None" "\<not> inherits st isbn"
    using that by (simp add: books_at_None)
  then show ?thesis
    using assms by (auto simp add: putReview_def Let_def)
qed

text \<open>
  What getReviews does for every id: 404 exactly when the id is neither a key of the
  catalog nor an inherited name, and 200 with the empty map for a book without reviews.
\<close>

lemma getReviews_status:
  "(status (getReviews isbn st) = 404 \<longleftrightarrow> map_of (books st) isbn = None \<and> \<not> inherits st isbn)
   \<and> (\<forall>b. map_of (books st) isbn = Some b \<longrightarrow>
         status (getReviews isbn st) = 200 \<and>
         (reviews b = [] \<longrightarrow>
            payload (getReviews isbn st) = ReviewsOf (Some (title b)) [] 0))"
proof -
  have 1: "status (getReviews isbn st) = 404 \<longleftrightarrow> books_at st isbn = None"
    by (auto simp add: getReviews_def json_def Let_def split: option.splits rvalue.splits)
  have 2: "status (getReviews isbn st) = 200 \<and>
           (reviews b = [] \<longrightarrow> payload (getReviews isbn st) = ReviewsOf (Some (title b)) [] 0)"
    if "map_of (books st) isbn = Some b" for b
    using that
    by (simp add: getReviews_def books_at_own reviews_at_def title_at_def json_def Let_def)
  show ?thesis using 1 2 by (simp add: books_at_None)
qed

subsection \<open>Sorting with a comparison function\<close>

lemma search_loop_filter:
  "search_loop (toLowerCase s) bks acc =
     acc @ map found_of (filter (\<lambda>e. author_contains s (snd e)) bks)"
  by (induction bks arbitrary: acc)
     (auto simp add: found_of_def author_contains_def includes_str_def)

lemma mset_insert_by: "mset (insert_by c x xs) = add_mset x (mset xs)"
  by (induction xs) auto

lemma mset_sort_by: "mset (sort_by c xs) = mset xs"
  by (induction xs) (auto simp add: sort_by_def mset_insert_by)

lemma set_insert_by: "set (insert_by c x xs) = insert x (set xs)"
  by (induction xs) auto

lemma set_sort_by: "set (sort_by c xs) = set xs"
  using mset_sort_by[of c xs] by (metis set_mset_mset)

lemma insert_by_map:
  "insert_by c (g x) (map g xs) = map g (insert_by (\<lambda>a b. c (g a) (g b)) x xs)"
  by (induction xs) auto

lemma sort_by_map: "sort_by c (map g xs) = map g (sort_by (\<lambda>a b. c (g a) (g b)) xs)"
  by (induction xs) (auto simp add: sort_by_def insert_by_map)

text \<open>
  Where the comparison function agrees with the order of a key on the elements at hand,
  the result is sorted by that key.
\<close>

lemma sorted_insert_by_key:
  fixes k :: "'a \<Rightarrow> 'b::linorder"
  assumes agree: "\<forall>a\<in>insert x (set xs). \<forall>b\<in>insert x (set xs). (c a b \<le> 0) = (k a \<le> k b)"
  shows "sorted (map k xs) \<Longrightarrow> sorted (map k (insert_by c x xs))"
  using agree
proof (induction xs)
  case Nil
  then show ?case by simp
next
  case (Cons y ys)
  have xy: "(c x y \<le> 0) = (k x \<le> k y)" using Cons.prems(2) by simp
  show ?case
  proof (cases "c x y \<le> 0")
    case True
    then have "k x \<le> k y" using xy by simp
    then have "\<forall>z\<in>set ys. k x \<le> k z" using Cons.prems(1) by auto
    with True \<open>k x \<le> k y\<close> Cons.prems(1) show ?thesis by simp
  next
    case False
    then have yx: "k y \<le> k x" using xy by simp
    have "sorted (map k (insert_by c x ys))"
      using Cons.IH Cons.prems by simp
    with False yx Cons.prems(1) show ?thesis
      by (auto simp add: set_insert_by)
  qed
qed

lemma sorted_sort_by_key:
  fixes k :: "'a \<Rightarrow> 'b::linorder"
  assumes "\<forall>a\<in>set xs. \<forall>b\<in>set xs. (c a b \<le> 0) = (k a \<le> k b)"
  shows "sorted (map k (sort_by c xs))"
  using assms
proof (induction xs)
  case Nil
  then show ?case by (simp add: sort_by_def)
next
  case (Cons x xs)
  have srt: "sorted (map k (sort_by c xs))" using Cons by simp
  have "\<forall>a\<in>insert x (set (sort_by c xs)). \<forall>b\<in>insert x (set (sort_by c xs)).
          (c a b \<le> 0) = (k a \<le> k b)"
    using Cons.prems by (simp add: set_sort_by)
  from sorted_insert_by_key[OF this srt] show ?case by (simp add: sort_by_def)
qed

lemma shared_visit_clean: "shared st = None \<Longrightarrow> shared_visit sa st = Inr []"
  by (simp add: shared_visit_def)

text \<open>
  Once \<open>Object.prototype.reviews\<close> exists and holds no review of a user named
  \<open>author\<close>, the search is rejected with a TypeError at every draw that does not
  simulate a failure, and the handler answers 500.
\<close>

lemma search_after_prototype_write:
  assumes "shared st = Some p" and "map_of (books st) ''reviews'' = None"
      and "map_of p ''author'' = None" and "draw req \<le> 97 / 100"
  shows "performAuthorSearch lc (draw req) s st = Inl TypeError"
    and "status (searchByAuthor lc s req st) = 500"
  using assms
  by (simp_all add: performAuthorSearch_def searchByAuthor_def shared_visit_def json_def
      Let_def)

lemma sort_matches_books:
  "sort_matches lc (map BookEntry fs) =
     Inr (map BookEntry (sort_by (\<lambda>a b. lc (f_title a) (f_title b)) fs))"
  by (simp add: sort_matches_def list_ex_iff entry_title_def sort_by_map)

lemma lex_compare_agrees: "(lex_compare x y \<le> 0) = (x \<le> y)"
  by (auto simp add: lex_compare_def)

lemma unknown_search:
  "performAuthorSearch lex_compare 0 ''UNKNOWN'' init_store =
     Inr \<lparr>sr_books =
            map BookEntry (map found_of [booksdb ! 6, booksdb ! 5, booksdb ! 4, booksdb ! 3]),
          searchTerm = ''UNKNOWN'', totalChecked = 10\<rparr>"
  by code_simp

section \<open>The claims\<close>

text \<open>
  C1. Claimed: the login operation (POST /customer/login) is behind the session gate, so
  that a login request whose session carries no credential is rejected with 403 before
  the login handler runs. The code mounts the gate on \<open>/customer/auth/*\<close> only. At the
  input below, a login request with no credential reaches the login handler and is
  answered 200.
\<close>

theorem login_gate_counterexample:
  "session login_alice = None \<and>
   customer_app login_alice store_alice =
     Some (json 200 ''User successfully logged in'' NoPayload, Some alice_session, store_alice)"
  by (simp add: scenario_defs customer_app_def gated_def customer_routes_def login_def
      falsy_def authenticatedUser_def jwt_sign_def Let_def)

text \<open>
  C1, as the code has it: every POST /customer/login, whatever its session context, is
  answered by the login handler and leaves the store unchanged; a PUT or DELETE on
  /customer/auth/review/:isbn whose session carries no credential is rejected with 403
  "User not logged in", with session and store unchanged.
\<close>

theorem login_outside_gate:
  "(verb req = POST \<and> path req = [''customer'', ''login''] \<longrightarrow>
      customer_app req st = Some (fst (login req st), snd (login req st), st))
   \<and> ((verb req = PUT \<or> verb req = DELETE) \<and>
       path req = [''customer'', ''auth'', ''review'', isbn] \<and> session req = None \<longrightarrow>
      customer_app req st = Some (json 403 ''User not logged in'' NoPayload, None, st))"
  by (auto simp add: customer_app_def gated_def customer_routes_def auth_def split: prod.splits)

theorem login_outside_gate_witness:
  "verb login_alice = POST \<and> path login_alice = [''customer'', ''login'']
   \<and> customer_app login_alice store_alice =
       Some (fst (login login_alice store_alice), snd (login login_alice store_alice),
             store_alice)
   \<and> verb (put_alice\<lparr>session := None\<rparr>) = PUT
   \<and> path (put_alice\<lparr>session := None\<rparr>) = [''customer'', ''auth'', ''review'', ''1'']
   \<and> session (put_alice\<lparr>session := None\<rparr>) = None
   \<and> customer_app (put_alice\<lparr>session := None\<rparr>) store_alice =
       Some (json 403 ''User not logged in'' NoPayload, None, store_alice)"
  using login_outside_gate [where req = login_alice and st = store_alice]
        login_outside_gate [where req = "put_alice\<lparr>session := None\<rparr>" and st = store_alice
                              and isbn = "''1''"]
  by (simp add: login_alice_def put_alice_def base_req_def)

text \<open>
  C2. Claimed: listAll (GET /) always succeeds with status 200 and no failure branch is
  reachable. The handler rejects when the random draw exceeds 0.95 and then answers 500.
\<close>

theorem listAll_counterexample:
  "status (listAll (base_req\<lparr>draw := 96 / 100\<rparr>) init_store) = 500"
  by (simp add: listAll_def getBooksAsync_def json_def base_req_def)

text \<open>
  C2, as the code has it: for every request and every state of the catalog, listAll
  returns the full catalog with status 200 when the draw is at most 0.95, and answers 500
  when the draw exceeds 0.95.
\<close>

theorem listAll_draw:
  "(draw req \<le> 95 / 100 \<longrightarrow>
      listAll req st =
        json 200 ''Books retrieved successfully using Async/Await''
          (AllBooks (length (books st)) (books st)))
   \<and> (draw req > 95 / 100 \<longrightarrow> status (listAll req st) = 500)"
  by (simp add: listAll_def getBooksAsync_def json_def)

theorem listAll_draw_witness:
  "draw base_req \<le> 95 / 100
   \<and> listAll base_req init_store =
       json 200 ''Books retrieved successfully using Async/Await'' (AllBooks 10 booksdb)
   \<and> draw (base_req\<lparr>draw := 99 / 100\<rparr>) > 95 / 100
   \<and> status (listAll (base_req\<lparr>draw := 99 / 100\<rparr>) store_alice) = 500"
  using listAll_draw [of base_req init_store]
        listAll_draw [of "base_req\<lparr>draw := 99 / 100\<rparr>" store_alice]
  by (simp add: base_req_def init_store_def length_booksdb)

text \<open>
  C3. Claimed: deleteReview fails with not-found when the book is absent and when the book
  has no review by the user, with the same status and the same response body. Both
  answers have status 404, but the bodies differ.
\<close>

theorem deleteReview_counterexample:
  "deleteReview ''1'' delete_alice store_alice =
      Inr (json 404 ''Review not found for this user'' NoPayload, store_alice)
   \<and> deleteReview ''99'' delete_alice store_alice =
      Inr (json 404 ''Book not found'' NoPayload, store_alice)
   \<and> json 404 ''Review not found for this user'' NoPayload \<noteq>
      json 404 ''Book not found'' NoPayload"
  by (simp add: scenario_defs deleteReview_def booksdb_def mk_book_def falsy_def json_def
      books_at_def reviews_at_def inherits_def proto_names_def shared_def init_runtime_def
      Let_def)

text \<open>
  C3, as the code has it by design: for every user of an authenticated session,
  deleteReview answers 404 and leaves the store unchanged both when the id is absent
  (neither a key of the catalog nor a name the catalog inherits; body "Book not found")
  and when the book exists but has no review by the user, whose name is not one that a
  review object inherits (body "Review not found for this user"): the same status,
  different bodies. Ids and user names that are inherited names (\<open>constructor\<close>,
  \<open>__proto__\<close>, ...) are left out.
\<close>

theorem deleteReview_not_found:
  assumes "session req = Some a"
  shows "(map_of (books st) isbn = None \<and> \<not> inherits st isbn \<longrightarrow>
            deleteReview isbn req st = Inr (json 404 ''Book not found'' NoPayload, st))
       \<and> (\<forall>b. map_of (books st) isbn = Some b \<and> map_of (reviews b) (sess_username a) = None
              \<and> \<not> inherits st (sess_username a) \<longrightarrow>
            deleteReview isbn req st =
              Inr (json 404 ''Review not found for this user'' NoPayload, st))"
proof -
  have 1: "deleteReview isbn req st = Inr (json 404 ''Book not found'' NoPayload, st)"
    if "map_of (books st) isbn = None" "\<not> inherits st isbn"
  proof -
    have "books_at st isbn = None" using that by (simp add: books_at_None)
    then show ?thesis using assms by (simp add: deleteReview_def Let_def)
  qed
  have 2: "deleteReview isbn req st =
             Inr (json 404 ''Review not found for this user'' NoPayload, st)"
    if "map_of (books st) isbn = Some b" "map_of (reviews b) (sess_username a) = None"
       "\<not> inherits st (sess_username a)" for b
    using that assms
    by (simp add: deleteReview_def Let_def books_at_own reviews_at_def)
  show ?thesis using 1 2 by blast
qed

theorem deleteReview_not_found_witness:
  "session delete_alice = Some alice_session
   \<and> map_of (books store_alice) ''99'' = None \<and> \<not> inherits store_alice ''99''
   \<and> deleteReview ''99'' delete_alice store_alice =
       Inr (json 404 ''Book not found'' NoPayload, store_alice)
   \<and> map_of (books store_alice) ''2'' = Some (mk_book ''Hans Christian Andersen'' ''Fairy tales'')
   \<and> map_of (reviews (mk_book ''Hans Christian Andersen'' ''Fairy tales''))
       (sess_username alice_session) = None
   \<and> \<not> inherits store_alice (sess_username alice_session)
   \<and> deleteReview ''2'' delete_alice store_alice =
       Inr (json 404 ''Review not found for this user'' NoPayload, store_alice)"
  using deleteReview_not_found [of delete_alice alice_session store_alice "''99''"]
        deleteReview_not_found [of delete_alice alice_session store_alice "''2''"]
  by (simp add: scenario_defs booksdb_def mk_book_def inherits_def proto_names_def
      shared_def init_runtime_def)

text \<open>
  C4. Claimed: for every search string, findByAuthor returns exactly the books whose
  author contains the string (letter case apart), ordered by title. The search rejects
  when the random draw exceeds 0.97, and then returns no books at all.
\<close>

theorem performAuthorSearch_counterexample:
  "performAuthorSearch lex_compare (98 / 100) ''Unknown'' init_store =
     Inl (SimulatedError ''Simulated database connection timeout'')"
  by (simp add: performAuthorSearch_def)

text \<open>
  C4, as the code has it by design: when the draw exceeds 0.97 the search rejects and the
  handler answers 500. Otherwise, as long as \<open>Object.prototype\<close> has no \<open>reviews\<close>
  property, and where \<open>localeCompare\<close> orders the titles of the catalog as the
  lexicographic order does, the search returns, for every search string, exactly the
  entries of the books whose author contains the string, letter case apart (each once),
  in ascending lexicographic order of title; the result is empty when no book matches,
  and the handler answers 404 for an empty result and 200 otherwise.
\<close>

theorem performAuthorSearch_result:
  assumes clean: "shared st = None"
      and agree: "\<forall>x\<in>set (map (title \<circ> snd) (books st)).
                  \<forall>y\<in>set (map (title \<circ> snd) (books st)).
                    (localeCompare x y \<le> 0) = (x \<le> y)"
  shows "(draw req > 97 / 100 \<longrightarrow>
            performAuthorSearch localeCompare (draw req) s st =
              Inl (SimulatedError ''Simulated database connection timeout'')
          \<and> status (searchByAuthor localeCompare s req st) = 500)
       \<and> (draw req \<le> 97 / 100 \<longrightarrow>
            (\<exists>fs. performAuthorSearch localeCompare (draw req) s st =
                    Inr \<lparr>sr_books = map BookEntry fs, searchTerm = s,
                         totalChecked = length (books st)\<rparr>
               \<and> mset fs = mset (map found_of (filter (\<lambda>e. author_contains s (snd e)) (books st)))
               \<and> sorted (map f_title fs)
               \<and> ((\<forall>e\<in>set (books st). \<not> author_contains s (snd e)) \<longrightarrow> fs = [])
               \<and> status (searchByAuthor localeCompare s req st) = (if fs = [] then 404 else 200)))"
proof -
  let ?c = "\<lambda>a b. localeCompare (f_title a) (f_title b)"
  let ?m = "map found_of (filter (\<lambda>e. author_contains s (snd e)) (books st))"
  let ?fs = "sort_by ?c ?m"
  have fail: "performAuthorSearch localeCompare (draw req) s st =
                Inl (SimulatedError ''Simulated database connection timeout'')
              \<and> status (searchByAuthor localeCompare s req st) = 500"
    if "draw req > 97 / 100"
    using that by (simp add: performAuthorSearch_def searchByAuthor_def json_def)
  have run: "performAuthorSearch localeCompare (draw req) s st =
               Inr \<lparr>sr_books = map BookEntry ?fs, searchTerm = s,
                    totalChecked = length (books st)\<rparr>"
    if "draw req \<le> 97 / 100"
    using that
    by (simp add: performAuthorSearch_def Let_def search_loop_filter
        shared_visit_clean[OF clean] sort_matches_books)
  have titles: "f_title ` set ?m \<subseteq> set (map (title \<circ> snd) (books st))"
    by (force simp add: found_of_def)
  have "\<forall>a\<in>set ?m. \<forall>b\<in>set ?m. (?c a b \<le> 0) = (f_title a \<le> f_title b)"
    using agree titles by blast
  then have srt: "sorted (map f_title ?fs)"
    by (rule sorted_sort_by_key)
  have ms: "mset ?fs = mset ?m" by (rule mset_sort_by)
  have none: "?fs = []" if "\<forall>e\<in>set (books st). \<not> author_contains s (snd e)"
  proof -
    have "?m = []" using that by (simp add: filter_empty_conv)
    then show ?thesis by (simp add: sort_by_def)
  qed
  have st: "status (searchByAuthor localeCompare s req st) = (if ?fs = [] then 404 else 200)"
    if "draw req \<le> 97 / 100"
    using run[OF that] by (simp add: searchByAuthor_def json_def)
  show ?thesis
    using fail run srt ms none st by blast
qed

theorem performAuthorSearch_result_witness:
  "shared init_store = None
   \<and> draw base_req \<le> 97 / 100
   \<and> performAuthorSearch lex_compare (draw base_req) ''UNKNOWN'' init_store =
       Inr \<lparr>sr_books =
              map BookEntry (map found_of [booksdb ! 6, booksdb ! 5, booksdb ! 4, booksdb ! 3]),
            searchTerm = ''UNKNOWN'', totalChecked = 10\<rparr>
   \<and> mset (map found_of [booksdb ! 6, booksdb ! 5, booksdb ! 4, booksdb ! 3]) =
       mset (map found_of (filter (\<lambda>e. author_contains ''UNKNOWN'' (snd e)) (books init_store)))
   \<and> sorted (map f_title (map found_of [booksdb ! 6, booksdb ! 5, booksdb ! 4, booksdb ! 3]))
   \<and> status (searchByAuthor lex_compare ''UNKNOWN'' base_req init_store) = 200
   \<and> draw (base_req\<lparr>draw := 99 / 100\<rparr>) > 97 / 100
   \<and> status (searchByAuthor lex_compare ''UNKNOWN'' (base_req\<lparr>draw := 99 / 100\<rparr>) init_store)
       = 500"
proof -
  have clean: "shared init_store = None"
    by (simp add: shared_def init_store_def init_runtime_def)
  have agree: "\<forall>x\<in>set (map (title \<circ> snd) (books init_store)).
               \<forall>y\<in>set (map (title \<circ> snd) (books init_store)).
                 (lex_compare x y \<le> 0) = (x \<le> y)"
    by (simp only: lex_compare_agrees) simp
  have d: "draw base_req = 0" by (simp add: base_req_def)
  have inj: "inj BookEntry" by (simp add: inj_on_def)
  show ?thesis
    using performAuthorSearch_result [OF clean agree, of base_req "''UNKNOWN''"]
          performAuthorSearch_result [OF clean agree, of "base_req\<lparr>draw := 99 / 100\<rparr>"
            "''UNKNOWN''"]
          clean unknown_search
    by (auto simp add: d inj_map_eq_map[OF inj])
qed

text \<open>
  C5. Claimed: getReviews answers 404 exactly when the id is absent from the catalog. The
  handler tests \<open>books[isbn]\<close>, which is truthy also for a name that the catalog inherits
  from \<open>Object.prototype\<close>: on the seeded catalog, \<open>constructor\<close> is no key, and the
  answer is 200 with an empty review map.
\<close>

theorem getReviews_inherited_id:
  "map_of (books init_store) ''constructor'' = None
   \<and> getReviews ''constructor'' init_store =
       json 200 ''No reviews found for book with ISBN constructor'' (ReviewsOf None [] 0)"
  by (simp add: getReviews_def init_store_def init_runtime_def booksdb_def books_at_def
      proto_names_def reviews_at_def shared_def title_at_def Let_def)

text \<open>
  C6. Claimed: after a successful putReview, getReviews shows the text under the user's
  name. For the user registered as \<open>__proto__\<close> the assignment
  \<open>reviews[username] = review\<close> reaches the setter of \<open>Object.prototype\<close> and stores
  nothing: putReview answers 200, the store is as before, and getReviews shows no review.
\<close>

theorem putReview_proto_user:
  "putReview ''1'' put_proto store_two =
     Inr (json 200 ''Review for book with ISBN 1 has been added/modified successfully''
            (ReviewSaved ''Loved it'' ''__proto__''),
          store_two)
   \<and> getReviews ''1'' store_two =
       json 200 ''No reviews found for book with ISBN 1''
         (ReviewsOf (Some ''Things Fall Apart'') [] 0)"
  by (simp add: putReview_def getReviews_def put_proto_def proto_session_def store_two_def
      base_req_def init_store_def booksdb_def mk_book_def falsy_def books_at_def
      reviews_at_def rv_falsy_def modify_def assign_def title_at_def Let_def)

text \<open>
  C7. Claimed: after register(u, p) succeeds, exists(u) is true and every later
  register(u, p') with any password fails with the duplicate error (409). With an empty
  password the later call is refused by the presence check first, with status 400.
\<close>

theorem register_duplicate_counterexample:
  "status (fst (register register_alice init_store)) = 200
   \<and> status (fst (register (register_alice\<lparr>body := alice_form(''password'' \<mapsto> '''')\<rparr>)
                     (snd (register register_alice init_store)))) = 400"
  by (simp add: scenario_defs register_def falsy_def isValid_def json_def)

text \<open>
  C7, as the code has it: for every username u and password p, immediately after
  register(u, p) succeeds, exists(u) is true; and in every store reached from there by
  any number of store-changing operations, register(u, p') registers nothing and leaves
  the store unchanged: it fails with the duplicate error (409) for every non-empty
  password p', and with the missing-fields error (400) when p' is missing or empty.
\<close>

theorem register_then_duplicate:
  assumes ok: "status (fst (register req st)) = 200"
      and u: "body req ''username'' = Some u"
      and later: "step\<^sup>*\<^sup>* (snd (register req st)) st2"
      and u': "body req' ''username'' = Some u"
  shows "isValid (users (snd (register req st))) u
       \<and> (\<not> falsy (body req' ''password'') \<longrightarrow>
            register req' st2 =
              (json 409 ''Username already exists. Please choose a different username.''
                 NoPayload, st2))
       \<and> (falsy (body req' ''password'') \<longrightarrow>
            register req' st2 =
              (json 400 ''Username and password are required'' NoPayload, st2))"
proof -
  have v1: "isValid (users (snd (register req st))) u"
    using register_success(4)[OF ok] u by (simp add: isValid_iff)
  have v2: "isValid (users st2) u"
    using steps_isValid[OF later v1] .
  have nf: "\<not> falsy (body req' ''username'')"
    using register_success(1)[OF ok] u u' by simp
  show ?thesis
    using v1 v2 nf u' by (simp add: register_def Let_def)
qed

theorem register_then_duplicate_witness:
  "status (fst (register register_alice init_store)) = 200
   \<and> body register_alice ''username'' = Some ''alice''
   \<and> snd (register register_alice init_store) = store_alice
   \<and> step\<^sup>*\<^sup>* store_alice store_reviewed
   \<and> isValid (users store_alice) ''alice''
   \<and> \<not> falsy ((alice_form(''password'' \<mapsto> ''other'')) ''password'')
   \<and> register (register_alice\<lparr>body := alice_form(''password'' \<mapsto> ''other'')\<rparr>)
         store_reviewed =
       (json 409 ''Username already exists. Please choose a different username.'' NoPayload,
        store_reviewed)
   \<and> falsy ((alice_form(''password'' := None)) ''password'')
   \<and> register (register_alice\<lparr>body := alice_form(''password'' := None)\<rparr>)
         store_reviewed =
       (json 400 ''Username and password are required'' NoPayload,
        store_reviewed)"
proof -
  have ok: "status (fst (register register_alice init_store)) = 200"
    by (simp add: scenario_defs register_def falsy_def isValid_def json_def)
  have u: "body register_alice ''username'' = Some ''alice''"
    by (simp add: register_alice_def base_req_def alice_form_def)
  have st1: "snd (register register_alice init_store) = store_alice"
    by (simp add: scenario_defs register_def falsy_def isValid_def)
  have "step store_alice store_reviewed"
    using step_putReview [OF put_alice_run] .
  then have later: "step\<^sup>*\<^sup>* (snd (register register_alice init_store)) store_reviewed"
    by (simp add: st1)
  have u1: "body (register_alice\<lparr>body := alice_form(''password'' \<mapsto> ''other'')\<rparr>) ''username''
              = Some ''alice''"
    by (simp add: alice_form_def)
  have u2: "body (register_alice\<lparr>body := alice_form(''password'' := None)\<rparr>) ''username''
              = Some ''alice''"
    by (simp add: alice_form_def)
  show ?thesis
    using register_then_duplicate [OF ok u later u1]
          register_then_duplicate [OF ok u later u2] ok u st1 later
    by (simp add: falsy_def)
qed

text \<open>
  C8. Claimed: putReview answers 400 when the book id does not exist in the catalog. The
  handler tests \<open>books[isbn]\<close>, which is truthy also for a name that the catalog inherits
  from \<open>Object.prototype\<close>: for the id \<open>constructor\<close>, no key of the catalog, it answers
  200 and attaches a review object to the function found there.
\<close>

theorem putReview_inherited_id:
  "map_of (books store_alice) ''constructor'' = None
   \<and> putReview ''constructor'' put_alice store_alice =
       Inr (json 200
              ''Review for book with ISBN constructor has been added/modified successfully''
              (ReviewSaved ''Loved it'' ''alice''),
            store_attached)"
  by (simp add: putReview_def scenario_defs store_attached_def init_runtime_def booksdb_def
      falsy_def books_at_def proto_names_def reviews_at_def shared_def rv_falsy_def
      init_reviews_def modify_def assign_def Let_def)

text \<open>
  C9. Frame: for every book of the catalog, every user of an authenticated session and
  every non-empty text, putReview succeeds and leaves the user directory and the objects
  of the runtime unchanged, keeps the keys of the catalog and every other book, and for
  the reviewed book keeps author and title and every entry of the review map but the one
  of the session's user.
\<close>

theorem putReview_frame:
  assumes b: "map_of (books st) isbn = Some b" and sess: "session req = Some a"
      and q: "query req ''review'' = Some rv" and t: "rv \<noteq> []"
  shows "\<exists>resp st' b'.
           putReview isbn req st = Inr (resp, st') \<and> status resp = 200
         \<and> users st' = users st \<and> runtime st' = runtime st
         \<and> map fst (books st') = map fst (books st)
         \<and> (\<forall>k. k \<noteq> isbn \<longrightarrow> map_of (books st') k = map_of (books st) k)
         \<and> map_of (books st') isbn = Some b'
         \<and> author b' = author b \<and> title b' = title b
         \<and> (\<forall>u. u \<noteq> sess_username a \<longrightarrow> map_of (reviews b') u = map_of (reviews b) u)"
proof -
  let ?f = "\<lambda>b. b\<lparr>reviews := assign (sess_username a) rv (reviews b)\<rparr>"
  let ?st' = "st\<lparr>books := AList.map_entry isbn ?f (books st)\<rparr>"
  have run: "putReview isbn req st =
               Inr (json 200
                      (''Review for book with ISBN '' @ isbn @
                       '' has been added/modified successfully'')
                      (ReviewSaved rv (sess_username a)), ?st')"
    using putReview_own[OF sess b q t] .
  have 1: "users ?st' = users st \<and> runtime ?st' = runtime st" by simp
  have 2: "map fst (books ?st') = map fst (books st)"
    by (simp add: map_entry_keys)
  have 3: "\<forall>k. k \<noteq> isbn \<longrightarrow> map_of (books ?st') k = map_of (books st) k"
    by (simp add: map_of_map_entry)
  have 4: "map_of (books ?st') isbn = Some (?f b)"
    using b by (simp add: map_of_map_entry)
  have 5: "author (?f b) = author b \<and> title (?f b) = title b" by simp
  have 6: "\<forall>u. u \<noteq> sess_username a \<longrightarrow> map_of (reviews (?f b)) u = map_of (reviews b) u"
    by (simp add: map_of_assign_other)
  have 7: "status (json 200
                      (''Review for book with ISBN '' @ isbn @
                       '' has been added/modified successfully'')
                      (ReviewSaved rv (sess_username a))) = 200"
    by (simp add: json_def)
  show ?thesis
    using run 1 2 3 4 5 6 7 by blast
qed

theorem putReview_frame_witness:
  "map_of (books store_alice) ''1'' = Some (mk_book ''Chinua Achebe'' ''Things Fall Apart'')
   \<and> session put_alice = Some alice_session
   \<and> query put_alice ''review'' = Some ''Loved it'' \<and> ''Loved it'' \<noteq> []
   \<and> putReview ''1'' put_alice store_alice =
       Inr (json 200 ''Review for book with ISBN 1 has been added/modified successfully''
              (ReviewSaved ''Loved it'' ''alice''), store_reviewed)
   \<and> users store_reviewed = users store_alice
   \<and> runtime store_reviewed = runtime store_alice
   \<and> map fst (books store_reviewed) = map fst (books store_alice)
   \<and> map_of (books store_reviewed) ''2'' = map_of (books store_alice) ''2''
   \<and> map_option title (map_of (books store_reviewed) ''1'') = Some ''Things Fall Apart''"
proof -
  have b: "map_of (books store_alice) ''1'' = Some (mk_book ''Chinua Achebe'' ''Things Fall Apart'')"
    by (simp add: store_alice_def init_store_def booksdb_def)
  have s: "session put_alice = Some alice_session"
    by (simp add: put_alice_def base_req_def)
  have q: "query put_alice ''review'' = Some ''Loved it''"
    by (simp add: put_alice_def base_req_def)
  have t: "''Loved it'' \<noteq> []" by simp
  show ?thesis
    using putReview_frame [OF b s q t] put_alice_run b s q
    by (auto simp add: mk_book_def)
qed

text \<open>
  C10. Whenever register fails, the store (and with it the user directory) is exactly as
  before: with a missing or empty username or password it answers 400, with a username
  already registered it answers 409, and every answer other than 200 leaves the store
  unchanged.
\<close>

theorem register_failure_keeps_store:
  "(falsy (body req ''username'') \<or> falsy (body req ''password'') \<longrightarrow>
      register req st = (json 400 ''Username and password are required'' NoPayload, st))
   \<and> (\<not> falsy (body req ''username'') \<and> \<not> falsy (body req ''password'') \<and>
        isValid (users st) (the (body req ''username'')) \<longrightarrow>
      register req st =
        (json 409 ''Username already exists. Please choose a different username.'' NoPayload, st))
   \<and> (status (fst (register req st)) \<noteq> 200 \<longrightarrow> snd (register req st) = st)"
  by (simp add: register_def json_def Let_def)

theorem register_failure_keeps_store_witness:
  "falsy (body base_req ''username'')
   \<and> register base_req store_alice =
       (json 400 ''Username and password are required'' NoPayload, store_alice)
   \<and> \<not> falsy (body register_alice ''username'') \<and> \<not> falsy (body register_alice ''password'')
   \<and> isValid (users store_alice) (the (body register_alice ''username''))
   \<and> register register_alice store_alice =
       (json 409 ''Username already exists. Please choose a different username.'' NoPayload,
        store_alice)
   \<and> status (fst (register register_alice store_alice)) \<noteq> 200
   \<and> snd (register register_alice store_alice) = store_alice"
  using register_failure_keeps_store [of base_req store_alice]
        register_failure_keeps_store [of register_alice store_alice]
  by (simp add: scenario_defs falsy_def isValid_def json_def)

end
